theory Spec2Isabelle
  imports Complex_Main "HOL-Library.List_Lexorder" "HOL-Library.Char_ord" "HOL-Library.Multiset"
begin

section \<open>Data model of the reorder dashboard\<close>

text \<open>
  The script \<^verbatim>\<open>dashboard.py\<close> works on one pandas DataFrame. A cell of the frame
  is a missing value (NaN, NaT, None), a text, a number or a calendar date. Numbers are
  the finite values of a float64 or int64 column, which are rationals; dates are counted
  in whole days. A frame is its list of column labels and its rows, each row holding one
  cell per column, in column order.
\<close>

datatype cell = NA | Str string | Num rat | Day int

datatype error = KeyError string | TypeError | ValueError | WidgetError | FileNotFound

record frame =
  columns :: "string list"
  rows :: "cell list list"


fun index_of :: "string \<Rightarrow> string list \<Rightarrow> nat option" where
  "index_of c [] = None"
| "index_of c (x # xs) = (if x = c then Some 0 else map_option Suc (index_of c xs))"

definition cell_at :: "cell list \<Rightarrow> nat \<Rightarrow> cell" where
  "cell_at r i = (if i < length r then r ! i else NA)"

text \<open>\<^verbatim>\<open>df[c]\<close>: the column labelled \<open>c\<close>, or KeyError when there is none.\<close>

definition getcol :: "frame \<Rightarrow> string \<Rightarrow> error + cell list" where
  "getcol df c = (case index_of c (columns df) of
      None \<Rightarrow> Inl (KeyError c)
    | Some i \<Rightarrow> Inr (map (\<lambda>r. cell_at r i) (rows df)))"

text \<open>
  \<^verbatim>\<open>df[c] = values\<close>: an existing column is overwritten in place, a new one is appended
  as the last column.
\<close>

definition setcol :: "string \<Rightarrow> cell list \<Rightarrow> frame \<Rightarrow> frame" where
  "setcol c vs df = (case index_of c (columns df) of
      None \<Rightarrow> df\<lparr>columns := columns df @ [c], rows := map2 (\<lambda>r v. r @ [v]) (rows df) vs\<rparr>
    | Some i \<Rightarrow> df\<lparr>rows := map2 (\<lambda>r v. r[i := v]) (rows df) vs\<rparr>)"

definition isna :: "cell \<Rightarrow> bool" where
  "isna c = (c = NA)"

definition is_numeric :: "cell \<Rightarrow> bool" where
  "is_numeric c = (case c of NA \<Rightarrow> True | Num q \<Rightarrow> True | _ \<Rightarrow> False)"

section \<open>Suggested reorder date\<close>

text \<open>
  \<^verbatim>\<open>Series.round()\<close> and Python's \<^verbatim>\<open>round\<close> both round to the nearest integer, a tie
  going to the even neighbour.
\<close>

definition round_half_even :: "rat \<Rightarrow> int" where
  "round_half_even q =
     (let f = \<lfloor>q\<rfloor>; d = q - of_int f
      in if d < 1 / 2 then f
         else if 1 / 2 < d then f + 1
         else if even f then f else f + 1)"

text \<open>
  \<^verbatim>\<open>df_copy["Days Until Out"].round().fillna(0).astype(int)\<close>, cell by cell: a missing
  value stays missing under \<^verbatim>\<open>round\<close> and becomes 0 under \<^verbatim>\<open>fillna\<close>. A column that holds a
  text or a date is no numeric column and \<^verbatim>\<open>round\<close> raises.
\<close>

definition round_cell :: "cell \<Rightarrow> cell" where
  "round_cell c = (case c of Num q \<Rightarrow> Num (of_int (round_half_even q)) | _ \<Rightarrow> c)"

definition fillna :: "cell \<Rightarrow> cell \<Rightarrow> cell" where
  "fillna v c = (if isna c then v else c)"

text \<open>\<^verbatim>\<open>astype(int)\<close> truncates a number and raises on a value that is none.\<close>

definition astype_int :: "cell \<Rightarrow> error + int" where
  "astype_int c = (case c of
      Num q \<Rightarrow> Inr (if 0 \<le> q then \<lfloor>q\<rfloor> else \<lceil>q\<rceil>)
    | NA \<Rightarrow> Inl ValueError
    | _ \<Rightarrow> Inl TypeError)"

fun traverse :: "('a \<Rightarrow> error + 'b) \<Rightarrow> 'a list \<Rightarrow> error + 'b list" where
  "traverse f [] = Inr []"
| "traverse f (x # xs) =
     (case f x of
        Inl e \<Rightarrow> Inl e
      | Inr y \<Rightarrow> (case traverse f xs of Inl e \<Rightarrow> Inl e | Inr ys \<Rightarrow> Inr (y # ys)))"

definition days_rounded :: "cell list \<Rightarrow> error + int list" where
  "days_rounded col =
     (if list_all is_numeric col
      then traverse astype_int (map (\<lambda>c. fillna (Num 0) (round_cell c)) col)
      else Inl TypeError)"

text \<open>
  The date of one row. \<open>base_date\<close> and \<open>today\<close> are the two readings of the clock
  (lines 38 and 44 of the script); the offset is signed, and a date before \<open>today\<close>
  is replaced by \<open>today\<close>.
\<close>

definition suggested_date :: "int \<Rightarrow> int \<Rightarrow> int \<Rightarrow> int \<Rightarrow> int" where
  "suggested_date base_date today buffer_days d =
     (let s = base_date + (d - buffer_days) in if s < today then today else s)"

definition add_suggested_date :: "int \<Rightarrow> int \<Rightarrow> frame \<Rightarrow> int \<Rightarrow> error + frame" where
  "add_suggested_date base_date today data buffer_days =
     (case getcol data ''Days Until Out'' of
        Inl e \<Rightarrow> Inr data
      | Inr col \<Rightarrow>
          (case days_rounded col of
             Inl e \<Rightarrow> Inl e
           | Inr ds \<Rightarrow>
               Inr (setcol ''Suggested Reorder Date''
                      (map (\<lambda>d. Day (suggested_date base_date today buffer_days d)) ds) data)))"

section \<open>Sidebar filters\<close>

text \<open>
  A mask is what the script combines with \<^verbatim>\<open>&\<close>: the Python constant \<^verbatim>\<open>True\<close>, a boolean
  Series with one flag per row, or a boolean DataFrame with one flag per cell.
\<close>

datatype mask = MTrue | MRows "bool list" | MCells "bool list list"

text \<open>
  \<^verbatim>\<open>a & b\<close>. Two Series, or two frames, combine flag by flag. A Series combined with a
  frame is matched by pandas on the frame's column labels: the labels of the Series are
  row numbers, none of them is a column label, and every flag of the result is False.
\<close>

fun mask_and :: "mask \<Rightarrow> mask \<Rightarrow> mask" where
  "mask_and MTrue m = m"
| "mask_and m MTrue = m"
| "mask_and (MRows a) (MRows b) = MRows (map2 (\<and>) a b)"
| "mask_and (MRows a) (MCells c) = MCells (map (map (\<lambda>_. False)) c)"
| "mask_and (MCells c) (MRows a) = MCells (map (map (\<lambda>_. False)) c)"
| "mask_and (MCells c) (MCells d) = MCells (map2 (map2 (\<and>)) c d)"

text \<open>
  \<^verbatim>\<open>df[m]\<close>. A boolean Series keeps the rows whose flag is set. A boolean frame is
  \<^verbatim>\<open>df.where(m)\<close>: every row is kept and a cell whose flag is not set becomes missing.
  \<^verbatim>\<open>df[True]\<close> looks for a column labelled True.
\<close>

definition getitem_mask :: "frame \<Rightarrow> mask \<Rightarrow> error + frame" where
  "getitem_mask df m = (case m of
      MTrue \<Rightarrow> Inl (KeyError ''True'')
    | MRows bs \<Rightarrow> Inr (df\<lparr>rows := map fst (filter snd (zip (rows df) bs))\<rparr>)
    | MCells cs \<Rightarrow> Inr (df\<lparr>rows := map2 (map2 (\<lambda>c b. if b then c else NA)) (rows df) cs\<rparr>))"

definition ebind :: "error + 'a \<Rightarrow> ('a \<Rightarrow> error + 'b) \<Rightarrow> error + 'b" where
  "ebind m f = (case m of Inl e \<Rightarrow> Inl e | Inr x \<Rightarrow> f x)"

definition blank :: cell where
  "blank = Str ''(Blank)''"

text \<open>
  \<^verbatim>\<open>astype(str)\<close> and \<^verbatim>\<open>str(v)\<close>: a text is itself and a missing value reads \<^verbatim>\<open>nan\<close>;
  how Python prints a number or a date is the parameter \<open>fmt\<close>.
\<close>

definition astype_str :: "(cell \<Rightarrow> string) \<Rightarrow> cell \<Rightarrow> string" where
  "astype_str fmt c = (case c of Str s \<Rightarrow> s | NA \<Rightarrow> ''nan'' | _ \<Rightarrow> fmt c)"

datatype date_input = DateList "int list" | DateTuple "int list"

record criteria =
  customers :: "cell list"
  items :: "string list"
  status_choice :: string
  days_slider :: int
  date_range :: date_input
  query :: string

definition mask_customer :: "cell list \<Rightarrow> frame \<Rightarrow> error + mask" where
  "mask_customer custs df =
     ebind (getcol df ''Customer'')
       (\<lambda>col. Inr (MRows (map (\<lambda>c. fillna blank c \<in> set custs) col)))"

definition item_col :: "frame \<Rightarrow> string" where
  "item_col df = (if ''Item'' \<in> set (columns df) then ''Item'' else ''Item #'')"

definition mask_item :: "(cell \<Rightarrow> string) \<Rightarrow> string list \<Rightarrow> frame \<Rightarrow> error + mask" where
  "mask_item fmt its df =
     ebind (getcol df (item_col df))
       (\<lambda>col. Inr (MRows (map (\<lambda>c. astype_str fmt (fillna blank c) \<in> set its) col)))"

definition mask_status :: "string \<Rightarrow> frame \<Rightarrow> error + mask" where
  "mask_status choice df =
     (if choice = ''All'' then Inr MTrue
      else ebind (getcol df ''Status'')
             (\<lambda>col. Inr (MRows (map (\<lambda>c. fillna blank c = Str choice) col))))"

definition le_days :: "cell \<Rightarrow> int \<Rightarrow> bool" where
  "le_days c n = (case c of Num q \<Rightarrow> q \<le> of_int n | _ \<Rightarrow> False)"

text \<open>Comparing a column that holds a text or a date with the slider's integer raises.\<close>

definition mask_days :: "int \<Rightarrow> frame \<Rightarrow> error + mask" where
  "mask_days slider df =
     ebind (getcol df ''Days Until Out'')
       (\<lambda>col. if list_all is_numeric col
              then Inr (MRows (map (\<lambda>c. le_days c slider \<or> isna c) col))
              else Inl TypeError)"

definition is_date :: "cell \<Rightarrow> bool" where
  "is_date c = (case c of NA \<Rightarrow> True | Day d \<Rightarrow> True | _ \<Rightarrow> False)"

definition between :: "cell \<Rightarrow> int \<Rightarrow> int \<Rightarrow> bool" where
  "between c lo hi = (case c of Day d \<Rightarrow> lo \<le> d \<and> d \<le> hi | _ \<Rightarrow> False)"

text \<open>
  Lines 88 to 97. The range is used only when the widget has returned a list of two
  dates. A Last Due column that holds a text or a number is no date column: its minimum,
  the widget or the comparison raises.
\<close>

definition mask_date :: "date_input \<Rightarrow> frame \<Rightarrow> error + mask" where
  "mask_date rng df =
     (if ''Last Due'' \<in> set (columns df)
      then ebind (getcol df ''Last Due'')
             (\<lambda>col. if list_all is_date col
                    then (case rng of
                            DateList [start_date, end_date] \<Rightarrow>
                              Inr (MRows (map (\<lambda>c. between c start_date end_date \<or> isna c) col))
                          | _ \<Rightarrow> Inr MTrue)
                    else Inl TypeError)
      else Inr MTrue)"

text \<open>
  Lines 100 to 103. \<open>contains q t\<close> is \<^verbatim>\<open>str.contains(q, case=False)\<close> on the text \<open>t\<close>, a
  regular-expression search. The function applied to each row returns one flag per
  column, so the result is a frame of flags.
\<close>

definition mask_search :: "(cell \<Rightarrow> string) \<Rightarrow> (string \<Rightarrow> string \<Rightarrow> bool) \<Rightarrow> string \<Rightarrow> frame \<Rightarrow> mask" where
  "mask_search fmt contains q df =
     (if q \<noteq> [] then MCells (map (map (\<lambda>c. contains q (astype_str fmt c))) (rows df)) else MTrue)"

text \<open>Lines 110 to 117, for the values the widgets have returned.\<close>

definition filtered :: "(cell \<Rightarrow> string) \<Rightarrow> (string \<Rightarrow> string \<Rightarrow> bool) \<Rightarrow> criteria \<Rightarrow> frame \<Rightarrow> error + frame" where
  "filtered fmt contains crit df =
     ebind (mask_customer (customers crit) df) (\<lambda>m_customer.
     ebind (mask_item fmt (items crit) df) (\<lambda>m_item.
     ebind (mask_status (status_choice crit) df) (\<lambda>m_status.
     ebind (mask_days (days_slider crit) df) (\<lambda>m_days.
     ebind (mask_date (date_range crit) df) (\<lambda>m_date.
       getitem_mask df
         (mask_and (mask_and (mask_and (mask_and (mask_and m_customer m_status) m_item) m_days) m_date)
            (mask_search fmt contains (query crit) df)))))))"

section \<open>The sidebar widgets\<close>

text \<open>
  What the widgets return in one run of the script. The slider returns \<open>None\<close> while it
  is untouched, that is its default value; \<^verbatim>\<open>st.date_input\<close> returns a list or a tuple of
  dates.
\<close>

record widgets =
  w_sel_all_cust :: bool
  w_customers :: "cell list"
  w_sel_all_items :: bool
  w_items :: "string list"
  w_status :: string
  w_days :: "int option"
  w_dates :: date_input
  w_query :: string

definition str_of :: "cell \<Rightarrow> string" where
  "str_of c = (case c of Str s \<Rightarrow> s | _ \<Rightarrow> [])"

definition num_of :: "cell \<Rightarrow> rat" where
  "num_of c = (case c of Num q \<Rightarrow> q | _ \<Rightarrow> 0)"

definition day_of :: "cell \<Rightarrow> int" where
  "day_of c = (case c of Day d \<Rightarrow> d | _ \<Rightarrow> 0)"

text \<open>\<^verbatim>\<open>sorted\<close> compares the values with each other and raises when their kinds differ.\<close>

definition py_sorted :: "cell list \<Rightarrow> error + cell list" where
  "py_sorted xs =
     (if list_all (\<lambda>c. case c of Str s \<Rightarrow> True | _ \<Rightarrow> False) xs then Inr (map Str (sort (map str_of xs)))
      else if list_all (\<lambda>c. case c of Num q \<Rightarrow> True | _ \<Rightarrow> False) xs then Inr (map Num (sort (map num_of xs)))
      else if list_all (\<lambda>c. case c of Day d \<Rightarrow> True | _ \<Rightarrow> False) xs then Inr (map Day (sort (map day_of xs)))
      else Inl TypeError)"

definition dropna_nums :: "cell list \<Rightarrow> rat list" where
  "dropna_nums col = List.map_filter (\<lambda>c. case c of Num q \<Rightarrow> Some q | _ \<Rightarrow> None) col"

text \<open>Python's \<^verbatim>\<open>int\<close> of a float drops the fraction.\<close>

definition py_int :: "rat \<Rightarrow> int" where
  "py_int q = (if 0 \<le> q then \<lfloor>q\<rfloor> else \<lceil>q\<rceil>)"

text \<open>
  Line 84: \<^verbatim>\<open>int(df["Days Until Out"].max(skipna=True))\<close>. The maximum of a column with
  no number is NaN, and \<^verbatim>\<open>int\<close> of NaN raises.
\<close>

definition max_days :: "frame \<Rightarrow> error + int" where
  "max_days df =
     ebind (getcol df ''Days Until Out'')
       (\<lambda>col. if list_all is_numeric col
              then (case dropna_nums col of
                      [] \<Rightarrow> Inl ValueError
                    | q # qs \<Rightarrow> Inr (py_int (fold max qs q)))
              else Inl TypeError)"

text \<open>
  \<^verbatim>\<open>st.slider(label, lo, hi, value)\<close> refuses a default outside its range; the position
  it returns lies in the range.
\<close>

definition slider :: "int \<Rightarrow> int \<Rightarrow> int \<Rightarrow> int option \<Rightarrow> error + int" where
  "slider lo hi dflt pick =
     (if lo \<le> dflt \<and> dflt \<le> hi
      then Inr (case pick of None \<Rightarrow> dflt | Some v \<Rightarrow> max lo (min hi v))
      else Inl WidgetError)"

definition rows_of_mask :: "'a list \<Rightarrow> mask \<Rightarrow> 'a list" where
  "rows_of_mask xs m = (case m of MRows bs \<Rightarrow> map fst (filter snd (zip xs bs)) | _ \<Rightarrow> xs)"

text \<open>
  Lines 65 to 99: the widgets are read in the order of the script, each statement
  raising where the script raises, and give the values the masks are built from.
\<close>

definition sidebar :: "(cell \<Rightarrow> string) \<Rightarrow> widgets \<Rightarrow> frame \<Rightarrow> error + criteria" where
  "sidebar fmt w df =
     ebind (getcol df ''Customer'') (\<lambda>cust_col.
     ebind (py_sorted (remdups (map (fillna blank) cust_col))) (\<lambda>cust_values.
     let custs = (if w_sel_all_cust w then cust_values else w_customers w) in
     ebind (mask_customer custs df) (\<lambda>m_customer.
     ebind (getcol df (item_col df)) (\<lambda>item_cells.
     let available_items = remdups (map (fillna blank) (rows_of_mask item_cells m_customer));
         item_values_str = sort (map (astype_str fmt) available_items);
         its = (if w_sel_all_items w then item_values_str else w_items w) in
     ebind (mask_item fmt its df) (\<lambda>m_item.
     ebind (mask_status (w_status w) df) (\<lambda>m_status.
     ebind (max_days df) (\<lambda>mx.
     ebind (slider 0 mx mx (w_days w)) (\<lambda>sl.
     ebind (mask_days sl df) (\<lambda>m_days.
     ebind (mask_date (w_dates w) df) (\<lambda>m_date.
       Inr \<lparr>customers = custs, items = its, status_choice = w_status w,
            days_slider = sl, date_range = w_dates w, query = w_query w\<rparr>))))))))))"

definition sidebar_filtered :: "(cell \<Rightarrow> string) \<Rightarrow> (string \<Rightarrow> string \<Rightarrow> bool) \<Rightarrow> widgets \<Rightarrow> frame \<Rightarrow> error + frame" where
  "sidebar_filtered fmt contains w df = ebind (sidebar fmt w df) (\<lambda>crit. filtered fmt contains crit df)"

text \<open>
  The state of the sidebar before any interaction: both checkboxes ticked, status All,
  the slider at its default, the date widget returning the default range it was given
  and the search box empty.
\<close>

definition default_widgets :: "date_input \<Rightarrow> widgets" where
  "default_widgets dflt_dates =
     \<lparr>w_sel_all_cust = True, w_customers = [], w_sel_all_items = True, w_items = [],
      w_status = ''All'', w_days = None, w_dates = dflt_dates, w_query = []\<rparr>"

section \<open>KPI cards\<close>

record kpis =
  total_items :: int
  need_reorder :: int
  avg_days :: int
  total_qty :: int

text \<open>\<^verbatim>\<open>DataFrame.empty\<close>: no row or no column.\<close>

definition empty_frame :: "frame \<Rightarrow> bool" where
  "empty_frame df = (rows df = [] \<or> columns df = [])"

text \<open>
  Line 126. The test \<^verbatim>\<open>dropna().empty\<close> comes first; the mean of a column that holds a
  text or a date raises.
\<close>

definition avg_days_of :: "cell list \<Rightarrow> error + int" where
  "avg_days_of col =
     (if filter (\<lambda>c. \<not> isna c) col \<noteq> []
      then (if list_all is_numeric col
            then Inr (round_half_even (sum_list (dropna_nums col) / of_nat (length (dropna_nums col))))
            else Inl TypeError)
      else Inr 0)"

definition total_qty_of :: "cell list \<Rightarrow> error + int" where
  "total_qty_of col =
     (if list_all is_numeric col then Inr (round_half_even (sum_list (dropna_nums col)))
      else Inl TypeError)"

definition kpi_cards :: "frame \<Rightarrow> error + kpis" where
  "kpi_cards f =
     (if \<not> empty_frame f
      then ebind (getcol f ''Status'') (\<lambda>status.
           ebind (getcol f ''Days Until Out'') (\<lambda>days.
           ebind (avg_days_of days) (\<lambda>avg.
           ebind (getcol f ''Suggested Order Qty'') (\<lambda>qty.
           ebind (total_qty_of qty) (\<lambda>total.
             Inr \<lparr>total_items = int (length (rows f)),
                  need_reorder = int (length (filter (\<lambda>c. c = Str ''Reorder Soon'') status)),
                  avg_days = avg, total_qty = total\<rparr>)))))
      else Inr \<lparr>total_items = 0, need_reorder = 0, avg_days = 0, total_qty = 0\<rparr>)"

section \<open>Detailed records and export\<close>

text \<open>
  Line 149: \<^verbatim>\<open>cols.insert(cols.index(a) + 1, cols.pop(cols.index(b)))\<close>. The position is
  computed before the pop; an insert past the end appends.
\<close>

definition display_cols :: "string list \<Rightarrow> string list" where
  "display_cols cols =
     (case (index_of ''Days Until Out'' cols, index_of ''Suggested Reorder Date'' cols) of
        (Some i, Some j) \<Rightarrow>
          (let popped = take j cols @ drop (Suc j) cols
           in take (i + 1) popped @ [''Suggested Reorder Date''] @ drop (i + 1) popped)
      | _ \<Rightarrow> cols)"

text \<open>\<^verbatim>\<open>filtered[cols]\<close>: the columns \<open>cols\<close> of the frame, in the order of \<open>cols\<close>.\<close>

definition getitem_cols :: "frame \<Rightarrow> string list \<Rightarrow> error + frame" where
  "getitem_cols df cols =
     ebind (traverse (\<lambda>c. case index_of c (columns df) of None \<Rightarrow> Inl (KeyError c) | Some i \<Rightarrow> Inr i) cols)
       (\<lambda>is. Inr \<lparr>columns = cols, rows = map (\<lambda>r. map (cell_at r) is) (rows df)\<rparr>)"

text \<open>The table shown under Detailed Records; none when the view is empty.\<close>

definition detailed_records :: "frame \<Rightarrow> error + frame option" where
  "detailed_records f =
     (if \<not> empty_frame f
      then ebind (getitem_cols f (display_cols (columns f))) (\<lambda>t. Inr (Some t))
      else Inr None)"

text \<open>
  Line 193: \<^verbatim>\<open>filtered.to_csv(index=False)\<close>. The export is the header line and one
  record per row, in the order of the frame handed to \<^verbatim>\<open>to_csv\<close>.
\<close>

definition csv_bytes :: "frame \<Rightarrow> string list \<times> cell list list" where
  "csv_bytes f = (columns f, rows f)"

section \<open>One run of the script\<close>

record outputs =
  out_filtered :: frame
  out_kpis :: kpis
  out_records :: "frame option"
  out_csv :: "string list \<times> cell list list"
  out_uploaded :: "frame option"

text \<open>
  \<open>report\<close> is the content of \<^verbatim>\<open>reorder_report.xlsx\<close>, none when the file is missing;
  \<open>uploaded\<close> is the content of the file handed to the uploader, none when there is
  no upload. The charts draw the filtered view and return nothing to the script.
\<close>

definition dashboard ::
  "(cell \<Rightarrow> string) \<Rightarrow> (string \<Rightarrow> string \<Rightarrow> bool) \<Rightarrow> int \<Rightarrow> int \<Rightarrow> frame option \<Rightarrow> widgets \<Rightarrow> frame option
     \<Rightarrow> error + outputs" where
  "dashboard fmt contains base_date today report w uploaded =
     (case report of
        None \<Rightarrow> Inl FileNotFound
      | Some raw \<Rightarrow>
          ebind (add_suggested_date base_date today raw 5) (\<lambda>df.
          ebind (sidebar_filtered fmt contains w df) (\<lambda>f.
          ebind (kpi_cards f) (\<lambda>k.
          ebind (detailed_records f) (\<lambda>t.
            Inr \<lparr>out_filtered = f, out_kpis = k, out_records = t,
                 out_csv = csv_bytes f, out_uploaded = uploaded\<rparr>)))))"

section \<open>Reference notions and example tables\<close>



text \<open>The cell a row holds under a column label, missing when there is no such column.\<close>

definition lookup :: "string list \<Rightarrow> cell list \<Rightarrow> string \<Rightarrow> cell" where
  "lookup cols r c = (case index_of c cols of None \<Rightarrow> NA | Some i \<Rightarrow> cell_at r i)"

text \<open>
  The matching rules of the specification's filter table for one row, all of them
  together: customer membership, status equality, item membership, the days ceiling and
  the date range, the last two letting a missing value pass.
\<close>

definition row_passes :: "(cell \<Rightarrow> string) \<Rightarrow> criteria \<Rightarrow> string list \<Rightarrow> cell list \<Rightarrow> bool" where
  "row_passes fmt crit cols r =
     (fillna blank (lookup cols r ''Customer'') \<in> set (customers crit)
      \<and> (status_choice crit = ''All'' \<or> fillna blank (lookup cols r ''Status'') = Str (status_choice crit))
      \<and> astype_str fmt (fillna blank (lookup cols r (if ''Item'' \<in> set cols then ''Item'' else ''Item #'')))
            \<in> set (items crit)
      \<and> (le_days (lookup cols r ''Days Until Out'') (days_slider crit) \<or> isna (lookup cols r ''Days Until Out''))
      \<and> (case date_range crit of
            DateList [start_date, end_date] \<Rightarrow>
              ''Last Due'' \<notin> set cols
              \<or> between (lookup cols r ''Last Due'') start_date end_date
              \<or> isna (lookup cols r ''Last Due'')
          | _ \<Rightarrow> True))"

text \<open>
  A frame is a view of a table when it has the table's columns and each of its rows
  agrees with some row of the table in every cell that is not missing.
\<close>

definition view_of :: "frame \<Rightarrow> frame \<Rightarrow> bool" where
  "view_of df' df =
     (columns df' = columns df
      \<and> (\<forall>r' \<in> set (rows df'). \<exists>r \<in> set (rows df).
            \<forall>c. lookup (columns df) r' c = lookup (columns df) r c \<or> lookup (columns df) r' c = NA))"

text \<open>Search as the specification words it: a literal substring, letter case ignored.\<close>

definition lower :: "char \<Rightarrow> char" where
  "lower c = (if 65 \<le> (of_char c :: nat) \<and> (of_char c :: nat) \<le> 90 then char_of (of_char c + 32 :: nat) else c)"

fun starts_with :: "string \<Rightarrow> string \<Rightarrow> bool" where
  "starts_with [] t = True"
| "starts_with (x # q) [] = False"
| "starts_with (x # q) (y # t) = (x = y \<and> starts_with q t)"

fun substring :: "string \<Rightarrow> string \<Rightarrow> bool" where
  "substring q [] = (q = [])"
| "substring q (y # t) = (starts_with q (y # t) \<or> substring q t)"

definition icontains :: "string \<Rightarrow> string \<Rightarrow> bool" where
  "icontains q t = substring (map lower q) (map lower t)"

definition spec_search :: "(cell \<Rightarrow> string) \<Rightarrow> string \<Rightarrow> cell list \<Rightarrow> bool" where
  "spec_search fmt q r = (q = [] \<or> list_ex (\<lambda>c. icontains q (astype_str fmt c)) r)"

text \<open>
  How the whole numbers of the example tables print (they load as integer columns);
  no other number or date is printed in the examples.
\<close>

fun digits :: "nat \<Rightarrow> string" where
  "digits n = (if n < 10 then [char_of (48 + n)] else digits (n div 10) @ [char_of (48 + n mod 10)])"

definition example_fmt :: "cell \<Rightarrow> string" where
  "example_fmt c = (case c of
      Num q \<Rightarrow> (if 0 \<le> q then digits (nat \<lfloor>q\<rfloor>) else CHR ''-'' # digits (nat \<lfloor>- q\<rfloor>))
    | _ \<Rightarrow> [])"


text \<open>The same table after the date has been derived on day 100 with a buffer of 5.\<close>

definition example_dated :: frame where
  "example_dated =
     \<lparr>columns = [''Customer'', ''Item'', ''Status'', ''Days Until Out'', ''Suggested Order Qty'',
                 ''Suggested Reorder Date''],
      rows = [[Str ''A'', Str ''P-1'', Str ''Reorder Soon'', Num 2, Num 10, Day 100],
              [Str ''B'', Str ''P-2'', Str ''OK'', Num 30, Num 5, Day 125]]\<rparr>"



text \<open>A table whose days until stock-out are not whole numbers.\<close>

definition fraction_table :: frame where
  "fraction_table =
     \<lparr>columns = [''Customer'', ''Item'', ''Status'', ''Days Until Out'', ''Suggested Order Qty''],
      rows = [[Str ''A'', Str ''P-1'', Str ''Reorder Soon'', Num (5 / 2), Num 10],
              [Str ''B'', Str ''P-2'', Str ''OK'', Num (307 / 10), Num 5]]\<rparr>"

text \<open>Every customer and item of the example selected, no other restriction.\<close>

definition example_criteria :: criteria where
  "example_criteria =
     \<lparr>customers = [Str ''A'', Str ''B''], items = [''P-1'', ''P-2''], status_choice = ''All'',
      days_slider = 30, date_range = DateTuple [], query = []\<rparr>"

text \<open>A table without the column Days Until Out.\<close>

definition no_days_table :: frame where
  "no_days_table =
     \<lparr>columns = [''Customer'', ''Item'', ''Status'', ''Suggested Order Qty''],
      rows = [[Str ''A'', Str ''P-1'', Str ''Reorder Soon'', Num 10],
              [Str ''B'', Str ''P-2'', Str ''OK'', Num 5]]\<rparr>"

section \<open>Properties of the date derivation\<close>


lemma index_of_None: "index_of c xs = None \<longleftrightarrow> c \<notin> set xs"
  by (induction xs) auto














section \<open>Properties of the KPI cards\<close>

lemma ebind_Inr [simp]: "ebind (Inr x) f = f x"
  by (simp add: ebind_def)

lemma ebind_Inl [simp]: "ebind (Inl e) f = Inl e"
  by (simp add: ebind_def)






section \<open>Properties of the filters\<close>

lemma getcol_lookup:
  "getcol df c = Inr col \<Longrightarrow> col = map (\<lambda>r. lookup (columns df) r c) (rows df)"
  by (auto simp: getcol_def lookup_def split: option.splits)

lemma getcol_same_columns:
  "getcol df c = Inr col \<Longrightarrow> columns df' = columns df \<Longrightarrow>
   getcol df' c = Inr (map (\<lambda>r. lookup (columns df) r c) (rows df'))"
  by (auto simp: getcol_def lookup_def split: option.splits)

lemma map2_conj_map: "map2 (\<and>) (map f xs) (map g xs) = map (\<lambda>x. f x \<and> g x) xs"
  by (induction xs) auto

lemma zip_map_filter: "map fst (filter snd (zip xs (map P xs))) = filter P xs"
  by (induction xs) auto

lemma where_row_false: "map2 (\<lambda>c b. if b then c else NA) r (map (\<lambda>_. False) r) = map (\<lambda>_. NA) r"
  by (induction r) auto

lemma where_all_false:
  "map2 (map2 (\<lambda>c b. if b then c else NA)) rs (map (map (\<lambda>_. False)) rs) = map (map (\<lambda>_. NA)) rs"
  by (induction rs) (simp_all add: where_row_false)

lemma mask_customer_view:
  assumes "mask_customer custs df = Inr m" "columns df' = columns df"
  shows "mask_customer custs df' =
     Inr (MRows (map (\<lambda>r. fillna blank (lookup (columns df) r ''Customer'') \<in> set custs) (rows df')))"
proof -
  obtain col where "getcol df ''Customer'' = Inr col"
    using assms(1) by (cases "getcol df ''Customer''") (auto simp: mask_customer_def)
  from getcol_same_columns [OF this assms(2)] show ?thesis
    by (simp add: mask_customer_def o_def)
qed

lemma mask_item_view:
  assumes "mask_item fmt its df = Inr m" "columns df' = columns df"
  shows "mask_item fmt its df' =
     Inr (MRows (map (\<lambda>r. astype_str fmt (fillna blank (lookup (columns df) r
        (if ''Item'' \<in> set (columns df) then ''Item'' else ''Item #''))) \<in> set its) (rows df')))"
proof -
  have ic: "item_col df' = item_col df" using assms(2) by (simp add: item_col_def)
  obtain col where "getcol df (item_col df) = Inr col"
    using assms(1) by (cases "getcol df (item_col df)") (auto simp: mask_item_def)
  from getcol_same_columns [OF this assms(2)] ic show ?thesis
    by (simp add: mask_item_def o_def item_col_def)
qed

lemma mask_status_view:
  assumes "mask_status choice df = Inr m" "columns df' = columns df"
  shows "mask_status choice df' =
     Inr (if choice = ''All'' then MTrue
          else MRows (map (\<lambda>r. fillna blank (lookup (columns df) r ''Status'') = Str choice) (rows df')))"
proof (cases "choice = ''All''")
  case True
  then show ?thesis by (simp add: mask_status_def)
next
  case False
  then obtain col where "getcol df ''Status'' = Inr col"
    using assms(1) by (cases "getcol df ''Status''") (auto simp: mask_status_def)
  from getcol_same_columns [OF this assms(2)] False show ?thesis
    by (simp add: mask_status_def o_def)
qed

lemma mask_days_view:
  assumes "mask_days n df = Inr m" "view_of df' df"
  shows "mask_days n df' =
     Inr (MRows (map (\<lambda>r. le_days (lookup (columns df) r ''Days Until Out'') n
                          \<or> isna (lookup (columns df) r ''Days Until Out'')) (rows df')))"
proof -
  have cols: "columns df' = columns df" using assms(2) by (simp add: view_of_def)
  obtain col where col: "getcol df ''Days Until Out'' = Inr col"
    using assms(1) by (cases "getcol df ''Days Until Out''") (auto simp: mask_days_def)
  then have num: "list_all is_numeric col"
    using assms(1) by (auto simp: mask_days_def split: if_splits)
  have "list_all is_numeric (map (\<lambda>r. lookup (columns df) r ''Days Until Out'') (rows df'))"
    unfolding list_all_iff
  proof
    fix x assume "x \<in> set (map (\<lambda>r. lookup (columns df) r ''Days Until Out'') (rows df'))"
    then obtain r' where r': "r' \<in> set (rows df')" "x = lookup (columns df) r' ''Days Until Out''" by auto
    then obtain r where r: "r \<in> set (rows df)"
      "x = lookup (columns df) r ''Days Until Out'' \<or> x = NA"
      using assms(2) unfolding view_of_def by blast
    have "is_numeric (lookup (columns df) r ''Days Until Out'')"
      using num r(1) getcol_lookup [OF col] by (auto simp: list_all_iff)
    with r(2) show "is_numeric x" by (auto simp: is_numeric_def)
  qed
  with getcol_same_columns [OF col cols] show ?thesis
    by (simp add: mask_days_def o_def)
qed


lemma mask_date_view:
  assumes "mask_date rng df = Inr m" "view_of df' df"
  shows "mask_date rng df' =
     Inr (case rng of
            DateList [start_date, end_date] \<Rightarrow>
              if ''Last Due'' \<in> set (columns df)
              then MRows (map (\<lambda>r. between (lookup (columns df) r ''Last Due'') start_date end_date
                                  \<or> isna (lookup (columns df) r ''Last Due'')) (rows df'))
              else MTrue
          | _ \<Rightarrow> MTrue)"
proof (cases "''Last Due'' \<in> set (columns df)")
  case False
  then have "mask_date rng df' = Inr MTrue"
    using assms(2) by (simp add: mask_date_def view_of_def)
  with False show ?thesis
    by (auto split: date_input.splits list.splits)
next
  case True
  have cols: "columns df' = columns df" using assms(2) by (simp add: view_of_def)
  obtain col where col: "getcol df ''Last Due'' = Inr col"
    using assms(1) True by (cases "getcol df ''Last Due''") (auto simp: mask_date_def)
  then have dt: "list_all is_date col"
    using assms(1) True by (auto simp: mask_date_def split: if_splits)
  have "list_all is_date (map (\<lambda>r. lookup (columns df) r ''Last Due'') (rows df'))"
    unfolding list_all_iff
  proof
    fix x assume "x \<in> set (map (\<lambda>r. lookup (columns df) r ''Last Due'') (rows df'))"
    then obtain r' where r': "r' \<in> set (rows df')" "x = lookup (columns df) r' ''Last Due''" by auto
    then obtain r where r: "r \<in> set (rows df)"
      "x = lookup (columns df) r ''Last Due'' \<or> x = NA"
      using assms(2) unfolding view_of_def by blast
    have "is_date (lookup (columns df) r ''Last Due'')"
      using dt r(1) getcol_lookup [OF col] by (auto simp: list_all_iff)
    with r(2) show "is_date x" by (auto simp: is_date_def)
  qed
  with getcol_same_columns [OF col cols] True cols show ?thesis
    by (simp add: mask_date_def o_def split: date_input.splits list.splits)
qed

lemma row_masks_combined:
  assumes "mask_customer (customers crit) df = Inr mc"
    and "mask_item fmt (items crit) df = Inr mi"
    and "mask_status (status_choice crit) df = Inr ms"
    and "mask_days (days_slider crit) df = Inr md"
    and "mask_date (date_range crit) df = Inr mt"
    and "view_of df' df"
  shows "\<exists>mc' mi' ms' md' mt'.
           mask_customer (customers crit) df' = Inr mc'
         \<and> mask_item fmt (items crit) df' = Inr mi'
         \<and> mask_status (status_choice crit) df' = Inr ms'
         \<and> mask_days (days_slider crit) df' = Inr md'
         \<and> mask_date (date_range crit) df' = Inr mt'
         \<and> mask_and (mask_and (mask_and (mask_and mc' ms') mi') md') mt'
             = MRows (map (row_passes fmt crit (columns df)) (rows df'))"
proof -
  have cols: "columns df' = columns df" using assms(6) by (simp add: view_of_def)
  note c = mask_customer_view [OF assms(1) cols]
  note i = mask_item_view [OF assms(2) cols]
  note s = mask_status_view [OF assms(3) cols]
  note d = mask_days_view [OF assms(4) assms(6)]
  note t = mask_date_view [OF assms(5) assms(6)]
  show ?thesis
    unfolding c i s d t
    by (auto simp: map2_conj_map row_passes_def split: date_input.splits list.splits)
qed


lemma filtered_masks:
  assumes "filtered fmt contains crit df = Inr v"
  shows "\<exists>mc mi ms md mt.
           mask_customer (customers crit) df = Inr mc
         \<and> mask_item fmt (items crit) df = Inr mi
         \<and> mask_status (status_choice crit) df = Inr ms
         \<and> mask_days (days_slider crit) df = Inr md
         \<and> mask_date (date_range crit) df = Inr mt"
  using assms unfolding filtered_def ebind_def by (auto split: sum.splits)

lemma filtered_view:
  assumes "filtered fmt contains crit df = Inr v" "view_of df' df"
  shows "filtered fmt contains crit df' =
     Inr (if query crit = []
          then df'\<lparr>rows := filter (row_passes fmt crit (columns df)) (rows df')\<rparr>
          else df'\<lparr>rows := map (map (\<lambda>_. NA)) (rows df')\<rparr>)"
proof -
  from filtered_masks [OF assms(1)] obtain mc mi ms md mt where
    m: "mask_customer (customers crit) df = Inr mc" "mask_item fmt (items crit) df = Inr mi"
       "mask_status (status_choice crit) df = Inr ms" "mask_days (days_slider crit) df = Inr md"
       "mask_date (date_range crit) df = Inr mt"
    by blast
  from row_masks_combined [OF m assms(2)] obtain mc' mi' ms' md' mt' where
    m': "mask_customer (customers crit) df' = Inr mc'" "mask_item fmt (items crit) df' = Inr mi'"
        "mask_status (status_choice crit) df' = Inr ms'" "mask_days (days_slider crit) df' = Inr md'"
        "mask_date (date_range crit) df' = Inr mt'"
    and all: "mask_and (mask_and (mask_and (mask_and mc' ms') mi') md') mt'
               = MRows (map (row_passes fmt crit (columns df)) (rows df'))"
    by blast
  have run: "filtered fmt contains crit df' =
      getitem_mask df' (mask_and (MRows (map (row_passes fmt crit (columns df)) (rows df')))
                          (mask_search fmt contains (query crit) df'))"
    by (simp add: filtered_def m' all)
  show ?thesis
  proof (cases "query crit = []")
    case True
    then show ?thesis
      by (simp add: run mask_search_def getitem_mask_def zip_map_filter)
  next
    case False
    have "map2 (map2 (\<lambda>c b. if b then c else NA)) (rows df')
            (map (map (\<lambda>_. False)) (map (map (\<lambda>c. contains (query crit) (astype_str fmt c))) (rows df')))
          = map (map (\<lambda>_. NA)) (rows df')"
      using where_all_false [of "rows df'"] by (simp add: o_def)
    with False show ?thesis
      by (simp add: run mask_search_def getitem_mask_def)
  qed
qed

lemma view_of_refl: "view_of df df"
  by (auto simp: view_of_def)

lemma view_of_filter: "view_of (df\<lparr>rows := filter P (rows df)\<rparr>) df"
  by (auto simp: view_of_def)

lemma lookup_blank_row: "lookup cols (map (\<lambda>_. NA) r) c = NA"
  by (simp add: lookup_def cell_at_def split: option.splits)

lemma view_of_blank: "view_of (df\<lparr>rows := map (map (\<lambda>_. NA)) (rows df)\<rparr>) df"
  by (auto simp: view_of_def lookup_blank_row)

lemma filtered_idempotent:
  assumes "filtered fmt contains crit df = Inr v"
  shows "filtered fmt contains crit v = Inr v"
proof (cases "query crit = []")
  case True
  have v: "v = df\<lparr>rows := filter (row_passes fmt crit (columns df)) (rows df)\<rparr>"
    using filtered_view [OF assms view_of_refl] assms True by simp
  have "view_of v df" unfolding v by (rule view_of_filter)
  from filtered_view [OF assms this] True show ?thesis
    by (simp add: v)
next
  case False
  have v: "v = df\<lparr>rows := map (map (\<lambda>_. NA)) (rows df)\<rparr>"
    using filtered_view [OF assms view_of_refl] assms False by simp
  have "view_of v df" unfolding v by (rule view_of_blank)
  from filtered_view [OF assms this] False show ?thesis
    by (simp add: v o_def)
qed

lemma map2_conj_commute: "map2 (\<and>) a b = map2 (\<and>) b a"
  by (induction a b rule: list_induct2') auto

lemma map2_map2_conj_commute: "map2 (map2 (\<and>)) c d = map2 (map2 (\<and>)) d c"
  by (induction c d rule: list_induct2') (auto simp: map2_conj_commute)

lemma mask_and_commute: "mask_and a b = mask_and b a"
  by (cases a; cases b) (simp_all add: map2_conj_commute map2_map2_conj_commute)

lemma map2_conj_assoc: "map2 (\<and>) (map2 (\<and>) a b) c = map2 (\<and>) a (map2 (\<and>) b c)"
proof (induction a arbitrary: b c)
  case Nil
  then show ?case by simp
next
  case (Cons x a)
  then show ?case by (cases b; cases c) auto
qed

lemma map2_map2_conj_assoc:
  "map2 (map2 (\<and>)) (map2 (map2 (\<and>)) a b) c = map2 (map2 (\<and>)) a (map2 (map2 (\<and>)) b c)"
proof (induction a arbitrary: b c)
  case Nil
  then show ?case by simp
next
  case (Cons x a)
  then show ?case by (cases b; cases c) (auto simp: map2_conj_assoc)
qed

lemma map2_false_left: "map2 (\<and>) (map (\<lambda>_. False) a) b = map (\<lambda>_. False) (map2 (\<and>) a b)"
  by (induction a b rule: list_induct2') auto

lemma map2_false_right: "map2 (\<and>) a (map (\<lambda>_. False) b) = map (\<lambda>_. False) (map2 (\<and>) a b)"
  by (induction a b rule: list_induct2') auto

lemma cells_false_left:
  "map2 (map2 (\<and>)) (map (map (\<lambda>_. False)) c) d = map (map (\<lambda>_. False)) (map2 (map2 (\<and>)) c d)"
  by (induction c d rule: list_induct2') (auto simp: map2_false_left)

lemma cells_false_right:
  "map2 (map2 (\<and>)) c (map (map (\<lambda>_. False)) d) = map (map (\<lambda>_. False)) (map2 (map2 (\<and>)) c d)"
  by (induction c d rule: list_induct2') (auto simp: map2_false_right)

lemma mask_and_assoc: "mask_and (mask_and a b) c = mask_and a (mask_and b c)"
  by (cases a; cases b; cases c)
     (simp_all add: map2_conj_assoc map2_map2_conj_assoc cells_false_left cells_false_right o_def)

lemma mask_and_right_commute: "mask_and (mask_and a y) x = mask_and (mask_and a x) y"
proof -
  have "mask_and (mask_and a y) x = mask_and a (mask_and y x)" by (rule mask_and_assoc)
  also have "\<dots> = mask_and a (mask_and x y)" by (simp only: mask_and_commute [of y x])
  also have "\<dots> = mask_and (mask_and a x) y" by (rule mask_and_assoc [symmetric])
  finally show ?thesis .
qed

lemma foldl_mask_and_permuted:
  assumes "mset ms = mset ms'"
  shows "foldl mask_and MTrue ms = foldl mask_and MTrue ms'"
proof -
  have comm: "(\<lambda>a. mask_and a x) \<circ> (\<lambda>a. mask_and a y) = (\<lambda>a. mask_and a y) \<circ> (\<lambda>a. mask_and a x)" for x y
    by (rule ext) (simp only: o_apply mask_and_right_commute [of _ y x])
  have "fold (\<lambda>x a. mask_and a x) ms = fold (\<lambda>x a. mask_and a x) ms'"
    using assms by (intro fold_multiset_equiv comm)
  then show ?thesis by (simp add: foldl_conv_fold)
qed

lemma filtered_as_foldl:
  "filtered fmt contains crit df =
     ebind (mask_customer (customers crit) df) (\<lambda>m_customer.
     ebind (mask_item fmt (items crit) df) (\<lambda>m_item.
     ebind (mask_status (status_choice crit) df) (\<lambda>m_status.
     ebind (mask_days (days_slider crit) df) (\<lambda>m_days.
     ebind (mask_date (date_range crit) df) (\<lambda>m_date.
       getitem_mask df (foldl mask_and MTrue
         [m_customer, m_status, m_item, m_days, m_date, mask_search fmt contains (query crit) df]))))))"
  by (simp add: filtered_def)

text \<open>
  Claim C8. Applying the same criteria to the view they have produced returns that view
  unchanged. The combination of two masks does not depend on their order or grouping,
  and the rows selected by the masks of any list, combined from the left as the script
  does, are the same for every rearrangement of the list. By \<open>filtered_as_foldl\<close> the
  script's own combination is such a list.
\<close>

theorem filtering_idempotent_and_order_free:
  "(filtered fmt contains crit df = Inr v \<longrightarrow> filtered fmt contains crit v = Inr v)
   \<and> mask_and a b = mask_and b a
   \<and> mask_and (mask_and a b) c = mask_and a (mask_and b c)
   \<and> (mset ms = mset ms' \<longrightarrow>
        getitem_mask df (foldl mask_and MTrue ms) = getitem_mask df (foldl mask_and MTrue ms'))"
proof (intro conjI impI)
  assume "filtered fmt contains crit df = Inr v"
  then show "filtered fmt contains crit v = Inr v" by (rule filtered_idempotent)
next
  show "mask_and a b = mask_and b a" by (rule mask_and_commute)
next
  show "mask_and (mask_and a b) c = mask_and a (mask_and b c)" by (rule mask_and_assoc)
next
  assume "mset ms = mset ms'"
  then have "foldl mask_and MTrue ms = foldl mask_and MTrue ms'"
    by (rule foldl_mask_and_permuted)
  then show "getitem_mask df (foldl mask_and MTrue ms) = getitem_mask df (foldl mask_and MTrue ms')"
    by (rule arg_cong)
qed

theorem filtering_idempotent_and_order_free_witness:
  "filtered example_fmt icontains (example_criteria\<lparr>status_choice := ''Reorder Soon''\<rparr>) example_dated
     = Inr (example_dated\<lparr>rows := [[Str ''A'', Str ''P-1'', Str ''Reorder Soon'', Num 2, Num 10, Day 100]]\<rparr>)
   \<and> filtered example_fmt icontains (example_criteria\<lparr>status_choice := ''Reorder Soon''\<rparr>)
        (example_dated\<lparr>rows := [[Str ''A'', Str ''P-1'', Str ''Reorder Soon'', Num 2, Num 10, Day 100]]\<rparr>)
     = Inr (example_dated\<lparr>rows := [[Str ''A'', Str ''P-1'', Str ''Reorder Soon'', Num 2, Num 10, Day 100]]\<rparr>)
   \<and> mset [MRows [True, False], MTrue, MRows [True, True]] = mset [MRows [True, True], MRows [True, False], MTrue]
   \<and> getitem_mask example_dated (foldl mask_and MTrue [MRows [True, False], MTrue, MRows [True, True]])
     = getitem_mask example_dated (foldl mask_and MTrue [MRows [True, True], MRows [True, False], MTrue])"
proof -
  have h1: "filtered example_fmt icontains (example_criteria\<lparr>status_choice := ''Reorder Soon''\<rparr>) example_dated
     = Inr (example_dated\<lparr>rows := [[Str ''A'', Str ''P-1'', Str ''Reorder Soon'', Num 2, Num 10, Day 100]]\<rparr>)"
    by code_simp
  have h2: "mset [MRows [True, False], MTrue, MRows [True, True]] = mset [MRows [True, True], MRows [True, False], MTrue]"
    by simp
  from filtering_idempotent_and_order_free [of example_fmt icontains "example_criteria\<lparr>status_choice := ''Reorder Soon''\<rparr>" example_dated
      "example_dated\<lparr>rows := [[Str ''A'', Str ''P-1'', Str ''Reorder Soon'', Num 2, Num 10, Day 100]]\<rparr>"
      MTrue MTrue MTrue "[MRows [True, False], MTrue, MRows [True, True]]"
      "[MRows [True, True], MRows [True, False], MTrue]"] h1 h2
  show ?thesis by simp
qed

lemma filtered_rows_stored:
  assumes "query crit = []" "filtered fmt contains crit df = Inr v"
  shows "v = df\<lparr>rows := filter (row_passes fmt crit (columns df)) (rows df)\<rparr>"
  using filtered_view [OF assms(2) view_of_refl] assms by simp

text \<open>
  Claim C9, evaluated on the example table with every customer and item selected and the
  search text \<^verbatim>\<open>OK\<close>. The claim is that each row of the view carries its stored values;
  the view the script computes has both rows with every cell missing. For an empty search
  text \<open>filtered_rows_stored\<close> shows the view to consist of stored rows.
\<close>

theorem search_overwrites_stored_values:
  "filtered fmt contains (example_criteria\<lparr>query := ''OK''\<rparr>) example_dated
     = Inr (example_dated\<lparr>rows := [[NA, NA, NA, NA, NA, NA], [NA, NA, NA, NA, NA, NA]]\<rparr>)"
  by code_simp

text \<open>
  Claim C6, evaluated on the example table in the default state with the search text
  \<^verbatim>\<open>A\<close>. The claim is that exactly the rows with a cell containing the text are kept,
  here the row of customer A; the script keeps both rows and blanks every cell.
\<close>

theorem search_mask_blanks_every_row:
  "sidebar_filtered example_fmt icontains ((default_widgets (DateTuple []))\<lparr>w_query := ''A''\<rparr>) example_dated
     = Inr (example_dated\<lparr>rows := [[NA, NA, NA, NA, NA, NA], [NA, NA, NA, NA, NA, NA]]\<rparr>)
   \<and> filter (spec_search example_fmt ''A'') (rows example_dated)
     = [[Str ''A'', Str ''P-1'', Str ''Reorder Soon'', Num 2, Num 10, Day 100]]"
  by code_simp

text \<open>
  Claim C3, evaluated on a table whose largest Days Until Out is 30.7. The claim is that
  the default state shows the full table; the slider's default is \<^verbatim>\<open>int(30.7)\<close>, which is
  30, and the row holding 30.7 is not in the default view.
\<close>

theorem default_view_drops_fractional_maximum:
  "ebind (add_suggested_date 100 100 fraction_table 5) (sidebar_filtered fmt contains (default_widgets dflt))
     = Inr \<lparr>columns = [''Customer'', ''Item'', ''Status'', ''Days Until Out'', ''Suggested Order Qty'',
                       ''Suggested Reorder Date''],
            rows = [[Str ''A'', Str ''P-1'', Str ''Reorder Soon'', Num (5 / 2), Num 10, Day 100]]\<rparr>"
  by code_simp

lemma add_suggested_date_absent:
  "''Days Until Out'' \<notin> set (columns data) \<Longrightarrow> add_suggested_date base_date today data buffer_days = Inr data"
  by (simp add: add_suggested_date_def getcol_def index_of_None [THEN iffD2])

lemma mask_date_absent:
  "''Last Due'' \<notin> set (columns df) \<Longrightarrow> mask_date rng df = Inr MTrue"
  by (simp add: mask_date_def)

lemma max_days_absent:
  "''Days Until Out'' \<notin> set (columns df) \<Longrightarrow> max_days df = Inl (KeyError ''Days Until Out'')"
  by (simp add: max_days_def getcol_def index_of_None [THEN iffD2])

lemma ebind_eq_Inr: "ebind m f = Inr y \<longleftrightarrow> (\<exists>x. m = Inr x \<and> f x = Inr y)"
  by (cases m) simp_all

lemma sidebar_days_absent:
  assumes "''Days Until Out'' \<notin> set (columns df)"
  shows "\<exists>e. sidebar fmt w df = Inl e"
proof (cases "sidebar fmt w df")
  case (Inl e)
  then show ?thesis by blast
next
  case (Inr crit)
  then have "\<exists>mx. max_days df = Inr mx"
    unfolding sidebar_def Let_def ebind_eq_Inr by blast
  then show ?thesis
    by (simp add: max_days_absent [OF assms])
qed

text \<open>
  Claim C4, evaluated on a table without the column Days Until Out in the default state.
  The claim is that the days filter lets every row pass; \<open>add_suggested_date\<close> returns the
  table unchanged, and the script then raises KeyError where it reads the column for the
  slider. By \<open>sidebar_days_absent\<close> it does so for every such table and every state of the
  widgets that reaches that line.
\<close>

theorem missing_days_column_raises:
  "add_suggested_date base_date today no_days_table 5 = Inr no_days_table
   \<and> dashboard fmt contains base_date today (Some no_days_table) (default_widgets dflt) uploaded
       = Inl (KeyError ''Days Until Out'')"
  by code_simp

section \<open>Properties of the display, the export and the upload\<close>









text \<open>
  Claim C10. A run with an uploaded file is the run without one, except that the
  uploaded table is shown as it was read: the filtered view, the cards, the table on
  display and the export do not depend on the upload, and a run that stops with an error
  stops with the same error.
\<close>

theorem upload_leaves_outputs_unchanged:
  "dashboard fmt contains base_date today report w uploaded
     = map_sum id (\<lambda>out. out\<lparr>out_uploaded := uploaded\<rparr>)
         (dashboard fmt contains base_date today report w None)"
  by (auto simp: dashboard_def ebind_def split: option.splits sum.splits)

end
